theory Spec2Isabelle
  imports Main
begin

section \<open>The HubSpot token exchange (connections/hubspot/init.ts)\<close>

text \<open>
  The module exports one asynchronous function, \<open>init\<close>. It destructures its argument,
  builds a form body, posts it with axios to HubSpot's token endpoint and maps the JSON
  answer to an \<open>OAuthResponse\<close>. Everything between the first destructuring and the
  \<open>return\<close> stands in one \<open>try\<close> block whose \<open>catch\<close> throws a new \<open>Error\<close>.

  The promise that \<open>init\<close> returns is modelled by its settlement: \<open>Inr\<close> for the record it
  resolves with, \<open>Inl\<close> for the \<open>Error\<close> it rejects with. The requests handed to axios
  are returned beside it, so that what goes out on the wire can be stated.
\<close>

subsection \<open>JavaScript values\<close>

text \<open>
  \<open>DataObject\<close> and \<open>OAuthResponse\<close> are declared in \<open>lib/types\<close>; the function reads
  \<open>body\<close> and \<open>response.data\<close> without any check of their shape, so both are arbitrary
  JSON-like values, together with \<open>undefined\<close> for what is absent. The code never
  computes with a number, so the type of numbers is a parameter \<open>'n\<close>; strings are
  passed through unchanged. An object is the list of its own properties, in order; should
  a name stand twice in the list, the first entry is the property.
\<close>

datatype 'n jsval =
    JUndefined
  | JNull
  | JBool bool
  | JNum 'n
  | JStr string
  | JArr "'n jsval list"
  | JObj "(string \<times> 'n jsval) list"

type_synonym 'n DataObject = "(string \<times> 'n jsval) list"

text \<open>
  A destructuring pattern \<open>const { k: x } = v\<close> throws a \<open>TypeError\<close> when \<open>v\<close> is
  \<open>undefined\<close> or \<open>null\<close>; otherwise it reads property \<open>k\<close> of \<open>v\<close>, and a property
  that \<open>v\<close> does not have reads as \<open>undefined\<close>.
\<close>

fun nullish :: "'n jsval \<Rightarrow> bool" where
  "nullish JUndefined = True"
| "nullish JNull = True"
| "nullish (JBool b) = False"
| "nullish (JNum n) = False"
| "nullish (JStr s) = False"
| "nullish (JArr vs) = False"
| "nullish (JObj fs) = False"

text \<open>
  \<open>get_prop k v\<close> is the property read \<open>v.k\<close> on a value that is not nullish. It is
  used at the keys \<open>body\<close>, \<open>clientId\<close>, \<open>clientSecret\<close>, \<open>metadata\<close>, \<open>code\<close>,
  \<open>redirectUri\<close>, \<open>access_token\<close>, \<open>refresh_token\<close> and \<open>expires_in\<close> only, none of
  which the prototypes of strings, numbers, booleans, arrays or objects define: on
  anything but an object with that own property the read gives \<open>undefined\<close>.
\<close>

fun get_prop :: "string \<Rightarrow> 'n jsval \<Rightarrow> 'n jsval" where
  "get_prop k (JObj fs) = (case map_of fs k of Some v \<Rightarrow> v | None \<Rightarrow> JUndefined)"
| "get_prop k JUndefined = JUndefined"
| "get_prop k JNull = JUndefined"
| "get_prop k (JBool b) = JUndefined"
| "get_prop k (JNum n) = JUndefined"
| "get_prop k (JStr s) = JUndefined"
| "get_prop k (JArr vs) = JUndefined"

text \<open>Whether a value is an object with own property \<open>k\<close>.\<close>

fun has_field :: "string \<Rightarrow> 'n jsval \<Rightarrow> bool" where
  "has_field k (JObj fs) = (k \<in> fst ` set fs)"
| "has_field k JUndefined = False"
| "has_field k JNull = False"
| "has_field k (JBool b) = False"
| "has_field k (JNum n) = False"
| "has_field k (JStr s) = False"
| "has_field k (JArr vs) = False"

subsection \<open>Requests, responses and the environment\<close>

text \<open>The configuration object passed to \<open>axios\<close> (lines 21 to 29).\<close>

record request =
  url :: string
  http_method :: string
  headers :: "(string \<times> string) list"
  data :: string

text \<open>The record \<open>init\<close> resolves with (lines 37 to 43).\<close>

record 'n OAuthResponse =
  accessToken :: "'n jsval"
  refreshToken :: "'n jsval"
  expiresIn :: "'n jsval"
  tokenType :: string
  meta :: "(string \<times> 'n jsval) list"

text \<open>\<open>new Error(message)\<close>, the only thing \<open>init\<close> ever throws (line 45).\<close>

datatype error = Error (message: string)

text \<open>
  What the network does with a request: no response at all (the string is the string
  representation of the error axios then rejects with), or a response with its status
  code and its parsed body, which axios exposes as \<open>response.data\<close>.
\<close>

datatype 'n http_outcome =
    NetworkFailure string
  | HttpResponse nat "'n jsval"

text \<open>
  The parts of a run that the source file does not decide:
  \<^item> \<open>network\<close>: the answer of the network to a request;
  \<^item> \<open>stringify\<close>: the library function \<open>qs.stringify\<close>, applied to the own properties of
    the object it receives;
  \<^item> \<open>status_error\<close>: the string representation of the error axios rejects with for a
    response whose status it refuses;
  \<^item> \<open>type_error\<close>: the string representation of the \<open>TypeError\<close> the runtime throws
    when the expression named by the first argument, whose value is the second, is
    destructured while nullish.
\<close>

record 'n env =
  network :: "request \<Rightarrow> 'n http_outcome"
  stringify :: "(string \<times> 'n jsval) list \<Rightarrow> string"
  status_error :: "nat \<Rightarrow> string"
  type_error :: "string \<Rightarrow> 'n jsval \<Rightarrow> string"

text \<open>
  The call passes no \<open>validateStatus\<close>, so axios applies its default: the promise
  resolves for a status from 200 to 299 and rejects for any other.
\<close>

definition validateStatus :: "nat \<Rightarrow> bool" where
  "validateStatus status = (200 \<le> status \<and> status < 300)"

definition axios :: "'n env \<Rightarrow> request \<Rightarrow> string + 'n jsval" where
  "axios env config =
     (case network env config of
        NetworkFailure e \<Rightarrow> Inl e
      | HttpResponse status d \<Rightarrow>
          if validateStatus status then Inr d else Inl (status_error env status))"

subsection \<open>init\<close>

text \<open>The object literal \<open>requestBody\<close> (lines 13 to 19), properties in source order.\<close>

definition requestBody ::
  "'n jsval \<Rightarrow> 'n jsval \<Rightarrow> 'n jsval \<Rightarrow> 'n jsval \<Rightarrow> (string \<times> 'n jsval) list" where
  "requestBody code client_id client_secret redirect_uri =
     [(''grant_type'', JStr ''authorization_code''),
      (''code'', code),
      (''client_id'', client_id),
      (''client_secret'', client_secret),
      (''redirect_uri'', redirect_uri)]"

text \<open>The axios configuration (lines 21 to 29) around an encoded body.\<close>

definition token_request :: "string \<Rightarrow> request" where
  "token_request form =
     \<lparr>url = ''https://api.hubapi.com/oauth/v1/token'',
      http_method = ''POST'',
      headers = [(''Content-Type'', ''application/x-www-form-urlencoded''),
                 (''Accept'', ''application/json'')],
      data = form\<rparr>"

text \<open>The \<open>catch\<close> clause (lines 44 to 46): \<open>cause\<close> is the caught error as a string.\<close>

definition rethrow :: "string \<Rightarrow> error" where
  "rethrow cause = Error (''Error fetching access token for Hubspot: '' @ cause)"

text \<open>A run: the requests handed to axios, in order, and how the promise settles.\<close>

record 'n run =
  sent :: "request list"
  result :: "error + 'n OAuthResponse"

text \<open>
  The argument of \<open>init\<close> has the object type \<open>DataObject\<close>, so it is an object and its
  pattern \<open>{ body }\<close> reads the property \<open>body\<close> of it.
\<close>

definition init :: "'n env \<Rightarrow> 'n DataObject \<Rightarrow> 'n run" where
  "init env arg =
     (let body = get_prop ''body'' (JObj arg) in
      if nullish body
      then \<lparr>sent = [], result = Inl (rethrow (type_error env ''body'' body))\<rparr>
      else
        let client_id = get_prop ''clientId'' body;
            client_secret = get_prop ''clientSecret'' body;
            metadata = get_prop ''metadata'' body
        in
          if nullish metadata
          then \<lparr>sent = [],
                result = Inl (rethrow (type_error env ''body.metadata'' metadata))\<rparr>
          else
            let code = get_prop ''code'' metadata;
                redirect_uri = get_prop ''redirectUri'' metadata;
                config = token_request
                  (stringify env (requestBody code client_id client_secret redirect_uri))
            in
              case axios env config of
                Inl e \<Rightarrow> \<lparr>sent = [config], result = Inl (rethrow e)\<rparr>
              | Inr response_data \<Rightarrow>
                  if nullish response_data
                  then \<lparr>sent = [config],
                        result = Inl (rethrow
                          (type_error env ''response.data'' response_data))\<rparr>
                  else \<lparr>sent = [config],
                        result = Inr
                          \<lparr>accessToken = get_prop ''access_token'' response_data,
                           refreshToken = get_prop ''refresh_token'' response_data,
                           expiresIn = get_prop ''expires_in'' response_data,
                           tokenType = ''Bearer'',
                           meta = []\<rparr>\<rparr>)"

text \<open>Names for the two values that \<open>init\<close> destructures out of its argument.\<close>

abbreviation body_of :: "'n DataObject \<Rightarrow> 'n jsval" where
  "body_of arg \<equiv> get_prop ''body'' (JObj arg)"

abbreviation metadata_of :: "'n DataObject \<Rightarrow> 'n jsval" where
  "metadata_of arg \<equiv> get_prop ''metadata'' (body_of arg)"

subsection \<open>init among the shared state of the program\<close>





subsection \<open>Sample inputs and environments\<close>

text \<open>
  Concrete arguments, network answers and library stand-ins at which the theorems below
  are evaluated. Numbers are integers here.
\<close>

definition sample_arg :: "int DataObject" where
  "sample_arg =
     [(''body'', JObj
        [(''clientId'', JStr ''id''),
         (''clientSecret'', JStr ''secret''),
         (''metadata'', JObj
            [(''code'', JStr ''c0de''),
             (''redirectUri'', JStr ''https://app.example/cb'')])])]"

text \<open>The same argument with no \<open>code\<close> among the properties of \<open>metadata\<close>.\<close>

definition arg_without_code :: "int DataObject" where
  "arg_without_code =
     [(''body'', JObj
        [(''clientId'', JStr ''id''),
         (''clientSecret'', JStr ''secret''),
         (''metadata'', JObj [(''redirectUri'', JStr ''https://app.example/cb'')])])]"

text \<open>The same argument with no \<open>metadata\<close> at all.\<close>

definition arg_without_metadata :: "int DataObject" where
  "arg_without_metadata =
     [(''body'', JObj [(''clientId'', JStr ''id''), (''clientSecret'', JStr ''secret'')])]"

text \<open>
  A stand-in for \<open>qs.stringify\<close>: the names of the fields whose value is not
  \<open>undefined\<close>, each followed by an ampersand.
\<close>

fun field_names :: "(string \<times> int jsval) list \<Rightarrow> string" where
  "field_names [] = []"
| "field_names ((k, v) # fs) =
     (if v = JUndefined then field_names fs else k @ ''&'' @ field_names fs)"

fun status_text :: "nat \<Rightarrow> string" where
  "status_text status = ''AxiosError: Request failed''"

fun engine_text :: "string \<Rightarrow> int jsval \<Rightarrow> string" where
  "engine_text source v = ''TypeError: Cannot destructure '' @ source"

definition env_with :: "(request \<Rightarrow> int http_outcome) \<Rightarrow> int env" where
  "env_with net =
     \<lparr>network = net, stringify = field_names,
      status_error = status_text, type_error = engine_text\<rparr>"

fun answer_tokens :: "request \<Rightarrow> int http_outcome" where
  "answer_tokens req =
     HttpResponse 200
       (JObj [(''access_token'', JStr ''A''),
              (''refresh_token'', JStr ''R''),
              (''expires_in'', JNum 3600)])"

text \<open>The same three fields, with a token type and a user beside them.\<close>

fun answer_tokens_mac :: "request \<Rightarrow> int http_outcome" where
  "answer_tokens_mac req =
     HttpResponse 201
       (JObj [(''token_type'', JStr ''mac''),
              (''access_token'', JStr ''A''),
              (''refresh_token'', JStr ''R''),
              (''hub_user'', JStr ''someone''),
              (''expires_in'', JNum 3600)])"

fun answer_access_only :: "request \<Rightarrow> int http_outcome" where
  "answer_access_only req = HttpResponse 200 (JObj [(''access_token'', JStr ''A'')])"

fun answer_null :: "request \<Rightarrow> int http_outcome" where
  "answer_null req = HttpResponse 200 JNull"

fun answer_400 :: "request \<Rightarrow> int http_outcome" where
  "answer_400 req = HttpResponse 400 (JObj [(''status'', JStr ''BAD_AUTH_CODE'')])"

fun refuse_connection :: "request \<Rightarrow> int http_outcome" where
  "refuse_connection req = NetworkFailure ''Error: connect ECONNREFUSED''"




lemmas sample_defs =
  sample_arg_def arg_without_code_def arg_without_metadata_def env_with_def

lemmas init_defs =
  init_def Let_def axios_def validateStatus_def token_request_def requestBody_def
  rethrow_def

section \<open>Properties of init\<close>

subsection \<open>The three ways through the function\<close>

lemma init_body_nullish:
  assumes "nullish (get_prop ''body'' (JObj arg))"
  shows "init env arg =
    \<lparr>sent = [],
     result = Inl (rethrow (type_error env ''body'' (get_prop ''body'' (JObj arg))))\<rparr>"
  using assms by (simp add: init_def)

lemma init_metadata_nullish:
  assumes "\<not> nullish (get_prop ''body'' (JObj arg))"
    and "nullish (get_prop ''metadata'' (get_prop ''body'' (JObj arg)))"
  shows "init env arg =
    \<lparr>sent = [],
     result = Inl (rethrow (type_error env ''body.metadata''
       (get_prop ''metadata'' (get_prop ''body'' (JObj arg)))))\<rparr>"
  using assms by (simp add: init_def Let_def)

lemma init_sent:
  assumes "\<not> nullish (get_prop ''body'' (JObj arg))"
    and "\<not> nullish (get_prop ''metadata'' (get_prop ''body'' (JObj arg)))"
  shows "sent (init env arg) =
    [token_request (stringify env (requestBody
       (get_prop ''code'' (get_prop ''metadata'' (get_prop ''body'' (JObj arg))))
       (get_prop ''clientId'' (get_prop ''body'' (JObj arg)))
       (get_prop ''clientSecret'' (get_prop ''body'' (JObj arg)))
       (get_prop ''redirectUri'' (get_prop ''metadata'' (get_prop ''body'' (JObj arg))))))]"
  using assms by (simp add: init_def Let_def split: sum.split)

lemma init_sent_cases:
  "sent (init env arg) = [] \<or> (\<exists>req. sent (init env arg) = [req])"
  by (simp add: init_def Let_def split: sum.split)


lemma init_rejected:
  assumes "sent (init env arg) = [req]" and "axios env req = Inl e"
  shows "result (init env arg) = Inl (rethrow e)"
  using assms by (auto simp: init_def Let_def split: if_splits sum.splits)

lemma init_resolved_nullish:
  assumes "sent (init env arg) = [req]" and "axios env req = Inr d" and "nullish d"
  shows "result (init env arg) = Inl (rethrow (type_error env ''response.data'' d))"
  using assms by (auto simp: init_def Let_def split: if_splits sum.splits)

lemma init_resolved:
  assumes "sent (init env arg) = [req]" and "axios env req = Inr d" and "\<not> nullish d"
  shows "result (init env arg) =
    Inr \<lparr>accessToken = get_prop ''access_token'' d,
         refreshToken = get_prop ''refresh_token'' d,
         expiresIn = get_prop ''expires_in'' d,
         tokenType = ''Bearer'',
         meta = []\<rparr>"
  using assms by (auto simp: init_def Let_def split: if_splits sum.splits)

lemma nullish_iff: "nullish v \<longleftrightarrow> v = JUndefined \<or> v = JNull"
  by (cases v) simp_all

lemma get_prop_defined_not_nullish:
  assumes "get_prop k v \<noteq> JUndefined"
  shows "\<not> nullish v"
  using assms by (cases v) simp_all

lemma code_present_destructures:
  assumes "get_prop ''code'' (metadata_of arg) \<noteq> JUndefined"
  shows "\<not> nullish (body_of arg)" and "\<not> nullish (metadata_of arg)"
proof -
  show m: "\<not> nullish (metadata_of arg)"
    using assms by (rule get_prop_defined_not_nullish)
  then have "metadata_of arg \<noteq> JUndefined"
    by (auto simp: nullish_iff)
  then show "\<not> nullish (body_of arg)"
    by (rule get_prop_defined_not_nullish)
qed

lemma axios_resolves:
  assumes "network env req = HttpResponse status d" and "validateStatus status"
  shows "axios env req = Inr d"
  using assms by (simp add: axios_def)

subsection \<open>The successful exchange\<close>

text \<open>
  C1: for every input in which \<open>clientId\<close>, \<open>clientSecret\<close>, \<open>metadata.code\<close> and
  \<open>metadata.redirectUri\<close> are present, if the request that \<open>init\<close> issues is answered
  with a status axios accepts and the body
  \<open>{access_token: "A", refresh_token: "R", expires_in: 3600}\<close>, then \<open>init\<close> resolves
  with exactly
  \<open>{accessToken: "A", refreshToken: "R", expiresIn: 3600, tokenType: "Bearer", meta: {}}\<close>.
\<close>

theorem init_example_exchange:
  fixes env :: "('n::numeral) env"
  assumes "get_prop ''clientId'' (body_of arg) \<noteq> JUndefined"
    and "get_prop ''clientSecret'' (body_of arg) \<noteq> JUndefined"
    and code: "get_prop ''code'' (metadata_of arg) \<noteq> JUndefined"
    and "get_prop ''redirectUri'' (metadata_of arg) \<noteq> JUndefined"
    and answer: "\<And>req. req \<in> set (sent (init env arg)) \<Longrightarrow>
      network env req = HttpResponse status
        (JObj [(''access_token'', JStr ''A''),
               (''refresh_token'', JStr ''R''),
               (''expires_in'', JNum 3600)])"
    and ok: "validateStatus status"
  shows "result (init env arg) =
    Inr \<lparr>accessToken = JStr ''A'', refreshToken = JStr ''R'', expiresIn = JNum 3600,
         tokenType = ''Bearer'', meta = []\<rparr>"
proof -
  let ?d = "JObj [(''access_token'', JStr ''A''), (''refresh_token'', JStr ''R''),
    (''expires_in'', JNum (3600::'n))]"
  from code have "\<not> nullish (body_of arg)" and "\<not> nullish (metadata_of arg)"
    by (rule code_present_destructures)+
  then obtain req where req: "sent (init env arg) = [req]"
    using init_sent [of arg env] by blast
  then have "network env req = HttpResponse status ?d"
    using answer by simp
  then have "axios env req = Inr ?d"
    using ok by (rule axios_resolves)
  with req have "result (init env arg) =
    Inr \<lparr>accessToken = get_prop ''access_token'' ?d,
         refreshToken = get_prop ''refresh_token'' ?d,
         expiresIn = get_prop ''expires_in'' ?d,
         tokenType = ''Bearer'', meta = []\<rparr>"
    by (rule init_resolved) simp
  then show ?thesis by simp
qed

theorem init_example_exchange_witness:
  "result (init (env_with answer_tokens) sample_arg) =
    Inr \<lparr>accessToken = JStr ''A'', refreshToken = JStr ''R'', expiresIn = JNum 3600,
         tokenType = ''Bearer'', meta = []\<rparr>"
proof (rule init_example_exchange [where status = 200])
  show "get_prop ''clientId'' (body_of sample_arg) \<noteq> JUndefined"
    by (simp add: sample_arg_def)
  show "get_prop ''clientSecret'' (body_of sample_arg) \<noteq> JUndefined"
    by (simp add: sample_arg_def)
  show "get_prop ''code'' (metadata_of sample_arg) \<noteq> JUndefined"
    by (simp add: sample_arg_def)
  show "get_prop ''redirectUri'' (metadata_of sample_arg) \<noteq> JUndefined"
    by (simp add: sample_arg_def)
  show "validateStatus 200"
    by (simp add: validateStatus_def)
  show "network (env_with answer_tokens) req =
    HttpResponse 200
      (JObj [(''access_token'', JStr ''A''), (''refresh_token'', JStr ''R''),
             (''expires_in'', JNum 3600)])" for req
    by (simp add: env_with_def)
qed

subsection \<open>Failures of the HTTP call\<close>

text \<open>
  C2: for every input, if every request that \<open>init\<close> issues fails, by a failure of the
  network or by a response whose status is outside 200 to 299 (such as 400), then
  \<open>init\<close> rejects with an \<open>Error\<close> whose message is the fixed prefix followed by
  the string representation of the underlying error. Whatever the cause, a rejection of
  \<open>init\<close> is an \<open>Error\<close> of that one shape.
\<close>

theorem init_http_failure:
  assumes failing: "\<And>req. req \<in> set (sent (init env arg)) \<Longrightarrow>
      (\<exists>e. network env req = NetworkFailure e) \<or>
      (\<exists>status d. network env req = HttpResponse status d \<and> \<not> validateStatus status)"
  shows "(\<exists>cause.
      result (init env arg) =
        Inl (Error (''Error fetching access token for Hubspot: '' @ cause)) \<and>
      (\<forall>req \<in> set (sent (init env arg)).
         (\<forall>e. network env req = NetworkFailure e \<longrightarrow> cause = e) \<and>
         (\<forall>status d. network env req = HttpResponse status d \<longrightarrow>
            cause = status_error env status))) \<and>
    (\<forall>err. result (init env arg) = Inl err \<longrightarrow>
      (\<exists>cause. err = Error (''Error fetching access token for Hubspot: '' @ cause)))"
proof (rule conjI)
  show "\<forall>err. result (init env arg) = Inl err \<longrightarrow>
      (\<exists>cause. err = Error (''Error fetching access token for Hubspot: '' @ cause))"
    by (auto simp: init_def Let_def rethrow_def split: if_splits sum.splits)
  consider (none) "sent (init env arg) = []" | (one) req where "sent (init env arg) = [req]"
    using init_sent_cases by blast
  then show "\<exists>cause.
      result (init env arg) =
        Inl (Error (''Error fetching access token for Hubspot: '' @ cause)) \<and>
      (\<forall>req \<in> set (sent (init env arg)).
         (\<forall>e. network env req = NetworkFailure e \<longrightarrow> cause = e) \<and>
         (\<forall>status d. network env req = HttpResponse status d \<longrightarrow>
            cause = status_error env status))"
  proof cases
    case none
    then show ?thesis
      by (auto simp: init_def Let_def rethrow_def split: if_splits sum.splits)
  next
    case one
    then have "(\<exists>e. network env req = NetworkFailure e) \<or>
      (\<exists>status d. network env req = HttpResponse status d \<and> \<not> validateStatus status)"
      using failing by simp
    then show ?thesis
    proof
      assume "\<exists>e. network env req = NetworkFailure e"
      then obtain e where e: "network env req = NetworkFailure e" ..
      then have "axios env req = Inl e"
        by (simp add: axios_def)
      with one have "result (init env arg) = Inl (rethrow e)"
        by (rule init_rejected)
      with one e show ?thesis
        by (simp add: rethrow_def)
    next
      assume "\<exists>status d. network env req = HttpResponse status d \<and> \<not> validateStatus status"
      then obtain status d
        where r: "network env req = HttpResponse status d" "\<not> validateStatus status"
        by blast
      then have "axios env req = Inl (status_error env status)"
        by (simp add: axios_def)
      with one have "result (init env arg) = Inl (rethrow (status_error env status))"
        by (rule init_rejected)
      with one r show ?thesis
        by (simp add: rethrow_def)
    qed
  qed
qed

theorem init_http_failure_witness:
  "result (init (env_with answer_400) sample_arg) =
     Inl (Error ''Error fetching access token for Hubspot: AxiosError: Request failed'') \<and>
   result (init (env_with refuse_connection) sample_arg) =
     Inl (Error ''Error fetching access token for Hubspot: Error: connect ECONNREFUSED'')"
proof -
  have s400: "sent (init (env_with answer_400) sample_arg) =
      [token_request ''grant_type&code&client_id&client_secret&redirect_uri&'']"
    by (simp add: init_defs sample_defs)
  have srefuse: "sent (init (env_with refuse_connection) sample_arg) =
      [token_request ''grant_type&code&client_id&client_secret&redirect_uri&'']"
    by (simp add: init_defs sample_defs)
  have n400: "network (env_with answer_400) req =
      HttpResponse 400 (JObj [(''status'', JStr ''BAD_AUTH_CODE'')])" for req
    by (simp add: env_with_def)
  have nrefuse: "network (env_with refuse_connection) req =
      NetworkFailure ''Error: connect ECONNREFUSED''" for req
    by (simp add: env_with_def)
  have "\<not> validateStatus 400"
    by (simp add: validateStatus_def)
  with n400 have "\<exists>cause.
      result (init (env_with answer_400) sample_arg) =
        Inl (Error (''Error fetching access token for Hubspot: '' @ cause)) \<and>
      (\<forall>req \<in> set (sent (init (env_with answer_400) sample_arg)).
         (\<forall>e. network (env_with answer_400) req = NetworkFailure e \<longrightarrow> cause = e) \<and>
         (\<forall>status d. network (env_with answer_400) req = HttpResponse status d \<longrightarrow>
            cause = status_error (env_with answer_400) status))"
    using init_http_failure [of "env_with answer_400" sample_arg] by blast
  then have a: "result (init (env_with answer_400) sample_arg) =
      Inl (Error ''Error fetching access token for Hubspot: AxiosError: Request failed'')"
    by (auto simp: s400 n400) (simp add: env_with_def)
  from nrefuse have "\<exists>cause.
      result (init (env_with refuse_connection) sample_arg) =
        Inl (Error (''Error fetching access token for Hubspot: '' @ cause)) \<and>
      (\<forall>req \<in> set (sent (init (env_with refuse_connection) sample_arg)).
         (\<forall>e. network (env_with refuse_connection) req = NetworkFailure e \<longrightarrow> cause = e) \<and>
         (\<forall>status d. network (env_with refuse_connection) req = HttpResponse status d \<longrightarrow>
            cause = status_error (env_with refuse_connection) status))"
    using init_http_failure [of "env_with refuse_connection" sample_arg] by blast
  then have b: "result (init (env_with refuse_connection) sample_arg) =
      Inl (Error ''Error fetching access token for Hubspot: Error: connect ECONNREFUSED'')"
    by (auto simp: srefuse nrefuse)
  from a b show ?thesis ..
qed

subsection \<open>A missing authorization code\<close>

text \<open>
  C3, as stated, fails: with \<open>metadata\<close> present and no \<open>code\<close> in it, nothing throws
  while the request is built. One request goes out, built from a body object whose
  \<open>code\<close> is \<open>undefined\<close>, and when the network answers it with tokens \<open>init\<close>
  resolves.
\<close>

theorem init_code_absent_counterexample:
  "get_prop ''code'' (metadata_of arg_without_code) = JUndefined \<and>
   sent (init (env_with answer_tokens) arg_without_code) =
     [token_request ''grant_type&client_id&client_secret&redirect_uri&''] \<and>
   result (init (env_with answer_tokens) arg_without_code) =
     Inr \<lparr>accessToken = JStr ''A'', refreshToken = JStr ''R'', expiresIn = JNum 3600,
          tokenType = ''Bearer'', meta = []\<rparr>"
  by (simp add: init_defs sample_defs)

text \<open>
  C3, amended: for every input in which \<open>metadata.code\<close> is absent,
  \<^item> if \<open>body\<close> or \<open>body.metadata\<close> is itself absent (\<open>undefined\<close> or \<open>null\<close>), \<open>init\<close>
    issues no request and rejects with the generic \<open>Error\<close>, whose message embeds the
    string of the \<open>TypeError\<close> of the destructuring;
  \<^item> otherwise nothing fails while the request is built: \<open>init\<close> issues exactly one
    request, the encoding of a body object whose \<open>code\<close> is \<open>undefined\<close>, and it settles
    as the HTTP call does: the generic \<open>Error\<close> when axios rejects or the response data
    is nullish, the normalized record otherwise.
\<close>

theorem init_code_absent:
  assumes "get_prop ''code'' (metadata_of arg) = JUndefined"
  shows "if nullish (body_of arg) \<or> nullish (metadata_of arg)
    then sent (init env arg) = [] \<and>
      (\<exists>source v. result (init env arg) =
         Inl (Error (''Error fetching access token for Hubspot: '' @ type_error env source v)))
    else (\<exists>req. sent (init env arg) = [req] \<and>
      req = token_request (stringify env (requestBody JUndefined
        (get_prop ''clientId'' (body_of arg))
        (get_prop ''clientSecret'' (body_of arg))
        (get_prop ''redirectUri'' (metadata_of arg)))) \<and>
      result (init env arg) =
        (case axios env req of
           Inl e \<Rightarrow> Inl (Error (''Error fetching access token for Hubspot: '' @ e))
         | Inr d \<Rightarrow>
             if nullish d
             then Inl (Error (''Error fetching access token for Hubspot: '' @
               type_error env ''response.data'' d))
             else Inr \<lparr>accessToken = get_prop ''access_token'' d,
                       refreshToken = get_prop ''refresh_token'' d,
                       expiresIn = get_prop ''expires_in'' d,
                       tokenType = ''Bearer'', meta = []\<rparr>))"
proof (cases "nullish (body_of arg) \<or> nullish (metadata_of arg)")
  case True
  then have "sent (init env arg) = [] \<and>
      (\<exists>source v. result (init env arg) =
         Inl (Error (''Error fetching access token for Hubspot: '' @ type_error env source v)))"
  proof (cases "nullish (body_of arg)")
    case True
    then show ?thesis
      by (auto simp: init_body_nullish rethrow_def)
  next
    case False
    with \<open>nullish (body_of arg) \<or> nullish (metadata_of arg)\<close>
    have "nullish (metadata_of arg)" by simp
    with False show ?thesis
      by (auto simp: init_metadata_nullish rethrow_def)
  qed
  with True show ?thesis by simp
next
  case False
  then have b: "\<not> nullish (body_of arg)" and m: "\<not> nullish (metadata_of arg)"
    by simp_all
  let ?req = "token_request (stringify env (requestBody JUndefined
        (get_prop ''clientId'' (body_of arg))
        (get_prop ''clientSecret'' (body_of arg))
        (get_prop ''redirectUri'' (metadata_of arg))))"
  have s: "sent (init env arg) = [?req]"
    using init_sent [OF b m, of env] assms by simp
  have "result (init env arg) =
        (case axios env ?req of
           Inl e \<Rightarrow> Inl (Error (''Error fetching access token for Hubspot: '' @ e))
         | Inr d \<Rightarrow>
             if nullish d
             then Inl (Error (''Error fetching access token for Hubspot: '' @
               type_error env ''response.data'' d))
             else Inr \<lparr>accessToken = get_prop ''access_token'' d,
                       refreshToken = get_prop ''refresh_token'' d,
                       expiresIn = get_prop ''expires_in'' d,
                       tokenType = ''Bearer'', meta = []\<rparr>)"
  proof (cases "axios env ?req")
    case (Inl e)
    with s have "result (init env arg) = Inl (rethrow e)"
      by (rule init_rejected)
    with Inl show ?thesis by (simp add: rethrow_def)
  next
    case (Inr d)
    show ?thesis
    proof (cases "nullish d")
      case True
      with s Inr have "result (init env arg) =
          Inl (rethrow (type_error env ''response.data'' d))"
        by (rule init_resolved_nullish)
      with Inr True show ?thesis by (simp add: rethrow_def)
    next
      case False
      with s Inr have "result (init env arg) =
          Inr \<lparr>accessToken = get_prop ''access_token'' d,
               refreshToken = get_prop ''refresh_token'' d,
               expiresIn = get_prop ''expires_in'' d,
               tokenType = ''Bearer'', meta = []\<rparr>"
        by (rule init_resolved)
      with Inr False show ?thesis by simp
    qed
  qed
  with s False show ?thesis by simp
qed

theorem init_code_absent_witness:
  "sent (init (env_with answer_400) arg_without_metadata) = [] \<and>
   result (init (env_with answer_400) arg_without_metadata) =
     Inl (Error ''Error fetching access token for Hubspot: TypeError: Cannot destructure body.metadata'') \<and>
   sent (init (env_with answer_400) arg_without_code) =
     [token_request ''grant_type&client_id&client_secret&redirect_uri&''] \<and>
   result (init (env_with answer_400) arg_without_code) =
     Inl (Error ''Error fetching access token for Hubspot: AxiosError: Request failed'')"
proof -
  have c1: "get_prop ''code'' (metadata_of arg_without_metadata) = JUndefined"
    by (simp add: sample_defs)
  have c2: "get_prop ''code'' (metadata_of arg_without_code) = JUndefined"
    by (simp add: sample_defs)
  have n1: "nullish (body_of arg_without_metadata) \<or> nullish (metadata_of arg_without_metadata)"
    by (simp add: sample_defs)
  have n2: "\<not> (nullish (body_of arg_without_code) \<or> nullish (metadata_of arg_without_code))"
    by (simp add: sample_defs)
  have r1: "result (init (env_with answer_400) arg_without_metadata) =
     Inl (Error ''Error fetching access token for Hubspot: TypeError: Cannot destructure body.metadata'')"
    by (simp add: init_defs sample_defs)
  have "sent (init (env_with answer_400) arg_without_metadata) = []"
    using init_code_absent [OF c1, of "env_with answer_400"] n1 by simp
  moreover have "\<exists>req. sent (init (env_with answer_400) arg_without_code) = [req] \<and>
      req = token_request (stringify (env_with answer_400) (requestBody JUndefined
        (get_prop ''clientId'' (body_of arg_without_code))
        (get_prop ''clientSecret'' (body_of arg_without_code))
        (get_prop ''redirectUri'' (metadata_of arg_without_code)))) \<and>
      result (init (env_with answer_400) arg_without_code) =
        (case axios (env_with answer_400) req of
           Inl e \<Rightarrow> Inl (Error (''Error fetching access token for Hubspot: '' @ e))
         | Inr d \<Rightarrow>
             if nullish d
             then Inl (Error (''Error fetching access token for Hubspot: '' @
               type_error (env_with answer_400) ''response.data'' d))
             else Inr \<lparr>accessToken = get_prop ''access_token'' d,
                       refreshToken = get_prop ''refresh_token'' d,
                       expiresIn = get_prop ''expires_in'' d,
                       tokenType = ''Bearer'', meta = []\<rparr>)"
    using init_code_absent [OF c2, of "env_with answer_400"] n2 by simp
  then have "sent (init (env_with answer_400) arg_without_code) =
     [token_request ''grant_type&client_id&client_secret&redirect_uri&''] \<and>
   result (init (env_with answer_400) arg_without_code) =
     Inl (Error ''Error fetching access token for Hubspot: AxiosError: Request failed'')"
    by (simp add: sample_defs requestBody_def axios_def validateStatus_def)
  ultimately show ?thesis using r1 by simp
qed

subsection \<open>The outbound request\<close>

text \<open>
  C4, as stated, fails: not every input has an outbound request. With no \<open>metadata\<close> in
  \<open>body\<close> the destructuring throws before line 21 is reached, so \<open>init\<close> issues no
  request at all and rejects.
\<close>

theorem init_no_request_counterexample:
  "nullish (metadata_of arg_without_metadata) \<and>
   sent (init (env_with answer_tokens) arg_without_metadata) = [] \<and>
   result (init (env_with answer_tokens) arg_without_metadata) =
     Inl (Error ''Error fetching access token for Hubspot: TypeError: Cannot destructure body.metadata'')"
  by (simp add: init_defs sample_defs)

text \<open>
  C4, amended: for every input in which \<open>body\<close> or \<open>body.metadata\<close> is \<open>undefined\<close> or
  \<open>null\<close>, \<open>init\<close> issues no request. For every other input it issues exactly one: a
  POST to \<open>https://api.hubapi.com/oauth/v1/token\<close> with the headers
  \<open>Content-Type: application/x-www-form-urlencoded\<close> and \<open>Accept: application/json\<close>,
  whose body is the result of \<open>qs.stringify\<close> on an object with exactly the fields
  \<open>grant_type\<close>, \<open>code\<close>, \<open>client_id\<close>, \<open>client_secret\<close> and \<open>redirect_uri\<close>, in
  this order; the last four hold what the input has at \<open>metadata.code\<close>, \<open>clientId\<close>,
  \<open>clientSecret\<close> and \<open>metadata.redirectUri\<close>, which is \<open>undefined\<close> where the input
  has nothing. Which of these fields the encoded text shows is for \<open>qs.stringify\<close> to
  decide.
\<close>

theorem init_request_shape:
  "sent (init env arg) =
     (if nullish (body_of arg) \<or> nullish (metadata_of arg) then []
      else [\<lparr>url = ''https://api.hubapi.com/oauth/v1/token'',
             http_method = ''POST'',
             headers = [(''Content-Type'', ''application/x-www-form-urlencoded''),
                        (''Accept'', ''application/json'')],
             data = stringify env
               [(''grant_type'', JStr ''authorization_code''),
                (''code'', get_prop ''code'' (metadata_of arg)),
                (''client_id'', get_prop ''clientId'' (body_of arg)),
                (''client_secret'', get_prop ''clientSecret'' (body_of arg)),
                (''redirect_uri'', get_prop ''redirectUri'' (metadata_of arg))]\<rparr>])"
proof (cases "nullish (body_of arg)")
  case True
  then show ?thesis by (simp add: init_body_nullish)
next
  case body: False
  show ?thesis
  proof (cases "nullish (metadata_of arg)")
    case True
    with body show ?thesis by (simp add: init_metadata_nullish)
  next
    case False
    with body show ?thesis
      by (simp add: init_sent token_request_def requestBody_def)
  qed
qed

theorem init_request_shape_witness:
  "sent (init (env_with answer_tokens) sample_arg) =
     [\<lparr>url = ''https://api.hubapi.com/oauth/v1/token'',
       http_method = ''POST'',
       headers = [(''Content-Type'', ''application/x-www-form-urlencoded''),
                  (''Accept'', ''application/json'')],
       data = ''grant_type&code&client_id&client_secret&redirect_uri&''\<rparr>] \<and>
   sent (init (env_with answer_tokens) arg_without_metadata) = []"
proof -
  have "sent (init (env_with answer_tokens) sample_arg) =
     [\<lparr>url = ''https://api.hubapi.com/oauth/v1/token'',
       http_method = ''POST'',
       headers = [(''Content-Type'', ''application/x-www-form-urlencoded''),
                  (''Accept'', ''application/json'')],
       data = ''grant_type&code&client_id&client_secret&redirect_uri&''\<rparr>]"
    using init_request_shape [of "env_with answer_tokens" sample_arg]
    by (simp add: sample_defs)
  moreover have "sent (init (env_with answer_tokens) arg_without_metadata) = []"
    using init_request_shape [of "env_with answer_tokens" arg_without_metadata]
    by (simp add: sample_defs)
  ultimately show ?thesis ..
qed



subsection \<open>The fixed fields of the result\<close>

text \<open>
  C6: whenever \<open>init\<close> resolves, whatever the input and the response, the \<open>tokenType\<close>
  of the record is the literal \<open>Bearer\<close>; a token type in the response is not read.
\<close>

theorem init_tokenType:
  assumes "result (init env arg) = Inr r"
  shows "tokenType r = ''Bearer''"
  using assms by (auto simp: init_def Let_def split: if_splits sum.splits)

theorem init_tokenType_witness:
  "result (init (env_with answer_tokens_mac) sample_arg) =
     Inr \<lparr>accessToken = JStr ''A'', refreshToken = JStr ''R'', expiresIn = JNum 3600,
          tokenType = ''Bearer'', meta = []\<rparr> \<and>
   tokenType \<lparr>accessToken = JStr ''A'', refreshToken = JStr ''R'',
     expiresIn = JNum (3600::int), tokenType = ''Bearer'', meta = []\<rparr> = ''Bearer''"
proof -
  have r: "result (init (env_with answer_tokens_mac) sample_arg) =
     Inr \<lparr>accessToken = JStr ''A'', refreshToken = JStr ''R'', expiresIn = JNum 3600,
          tokenType = ''Bearer'', meta = []\<rparr>"
    by (simp add: init_defs sample_defs)
  from r init_tokenType [OF r] show ?thesis ..
qed

text \<open>
  C7: whenever \<open>init\<close> resolves, whatever the input and the response, the \<open>meta\<close> of the
  record is the empty mapping.
\<close>

theorem init_meta:
  assumes "result (init env arg) = Inr r"
  shows "meta r = []"
  using assms by (auto simp: init_def Let_def split: if_splits sum.splits)

theorem init_meta_witness:
  "result (init (env_with answer_tokens_mac) sample_arg) =
     Inr \<lparr>accessToken = JStr ''A'', refreshToken = JStr ''R'', expiresIn = JNum 3600,
          tokenType = ''Bearer'', meta = []\<rparr> \<and>
   meta \<lparr>accessToken = JStr ''A'', refreshToken = JStr ''R'',
     expiresIn = JNum (3600::int), tokenType = ''Bearer'', meta = []\<rparr> = []"
proof -
  have r: "result (init (env_with answer_tokens_mac) sample_arg) =
     Inr \<lparr>accessToken = JStr ''A'', refreshToken = JStr ''R'', expiresIn = JNum 3600,
          tokenType = ''Bearer'', meta = []\<rparr>"
    by (simp add: init_defs sample_defs)
  from r init_meta [OF r] show ?thesis ..
qed

subsection \<open>What the result depends on\<close>

lemma init_resolved_from:
  assumes "result (init env arg) = Inr r"
  shows "\<exists>req d. sent (init env arg) = [req] \<and> axios env req = Inr d \<and> \<not> nullish d \<and>
    r = \<lparr>accessToken = get_prop ''access_token'' d,
         refreshToken = get_prop ''refresh_token'' d,
         expiresIn = get_prop ''expires_in'' d,
         tokenType = ''Bearer'', meta = []\<rparr>"
  using assms by (auto simp: init_def Let_def split: if_splits sum.splits)

lemma axios_resolved_data:
  assumes "axios env req = Inr d" and "network env req = HttpResponse status d'"
  shows "d = d'"
  using assms by (simp add: axios_def split: if_splits)


lemma missing_field_undefined:
  assumes "\<not> has_field k d"
  shows "get_prop k d = JUndefined"
proof (cases d)
  case (JObj fs)
  with assms have "map_of fs k = None"
    by (simp add: map_of_eq_None_iff)
  with JObj show ?thesis by simp
qed simp_all

text \<open>
  C8: take two exchanges that both resolve, the first on a response with body \<open>d1\<close> and
  the second on a response with body \<open>d2\<close>. If \<open>d1\<close> and \<open>d2\<close> agree on \<open>access_token\<close>,
  \<open>refresh_token\<close> and \<open>expires_in\<close>, the two records are equal, whatever else the two
  bodies hold (and whatever the status codes, the inputs and the rest of the
  environment are).
\<close>

theorem init_ignores_other_fields:
  assumes r1: "result (init env1 arg1) = Inr r1"
    and r2: "result (init env2 arg2) = Inr r2"
    and n1: "\<And>req. req \<in> set (sent (init env1 arg1)) \<Longrightarrow>
      network env1 req = HttpResponse status1 d1"
    and n2: "\<And>req. req \<in> set (sent (init env2 arg2)) \<Longrightarrow>
      network env2 req = HttpResponse status2 d2"
    and "get_prop ''access_token'' d1 = get_prop ''access_token'' d2"
    and "get_prop ''refresh_token'' d1 = get_prop ''refresh_token'' d2"
    and "get_prop ''expires_in'' d1 = get_prop ''expires_in'' d2"
  shows "r1 = r2"
proof -
  from r1 obtain req1 d where a: "sent (init env1 arg1) = [req1]" "axios env1 req1 = Inr d"
    and r1': "r1 = \<lparr>accessToken = get_prop ''access_token'' d,
         refreshToken = get_prop ''refresh_token'' d,
         expiresIn = get_prop ''expires_in'' d,
         tokenType = ''Bearer'', meta = []\<rparr>"
    using init_resolved_from by blast
  from a n1 have "d = d1"
    by (auto intro: axios_resolved_data)
  from r2 obtain req2 d' where b: "sent (init env2 arg2) = [req2]" "axios env2 req2 = Inr d'"
    and r2': "r2 = \<lparr>accessToken = get_prop ''access_token'' d',
         refreshToken = get_prop ''refresh_token'' d',
         expiresIn = get_prop ''expires_in'' d',
         tokenType = ''Bearer'', meta = []\<rparr>"
    using init_resolved_from by blast
  from b n2 have "d' = d2"
    by (auto intro: axios_resolved_data)
  with \<open>d = d1\<close> r1' r2' assms(5-7) show ?thesis by simp
qed

theorem init_ignores_other_fields_witness:
  "result (init (env_with answer_tokens) sample_arg) =
     result (init (env_with answer_tokens_mac) sample_arg)"
proof -
  let ?r = "\<lparr>accessToken = JStr ''A'', refreshToken = JStr ''R'',
    expiresIn = JNum (3600::int), tokenType = ''Bearer'', meta = []\<rparr>"
  let ?d1 = "JObj [(''access_token'', JStr ''A''), (''refresh_token'', JStr ''R''),
    (''expires_in'', JNum (3600::int))]"
  let ?d2 = "JObj [(''token_type'', JStr ''mac''), (''access_token'', JStr ''A''),
    (''refresh_token'', JStr ''R''), (''hub_user'', JStr ''someone''),
    (''expires_in'', JNum (3600::int))]"
  have r1: "result (init (env_with answer_tokens) sample_arg) = Inr ?r"
    by (simp add: init_defs sample_defs)
  obtain r2 where r2: "result (init (env_with answer_tokens_mac) sample_arg) = Inr r2"
    by (simp add: init_defs sample_defs)
  have n1: "network (env_with answer_tokens) req = HttpResponse 200 ?d1" for req
    by (simp add: env_with_def)
  have n2: "network (env_with answer_tokens_mac) req = HttpResponse 201 ?d2" for req
    by (simp add: env_with_def)
  have "?r = r2"
    using r1 r2 n1 n2
  proof (rule init_ignores_other_fields)
    show "get_prop ''access_token'' ?d1 = get_prop ''access_token'' ?d2" by simp
    show "get_prop ''refresh_token'' ?d1 = get_prop ''refresh_token'' ?d2" by simp
    show "get_prop ''expires_in'' ?d1 = get_prop ''expires_in'' ?d2" by simp
  qed
  with r1 r2 show ?thesis by simp
qed


subsection \<open>init and the shared state\<close>








subsection \<open>Responses that lack a field\<close>

text \<open>
  C10, as stated, fails for a response whose parsed body is \<open>null\<close>: it has none of the
  three fields, the status is 200, and the destructuring of \<open>response.data\<close> throws, so
  \<open>init\<close> rejects with the generic \<open>Error\<close>.
\<close>

theorem init_null_response_counterexample:
  "sent (init (env_with answer_null) sample_arg) =
     [token_request ''grant_type&code&client_id&client_secret&redirect_uri&''] \<and>
   network (env_with answer_null)
     (token_request ''grant_type&code&client_id&client_secret&redirect_uri&'') =
     HttpResponse 200 JNull \<and>
   validateStatus 200 \<and>
   \<not> has_field ''access_token'' (JNull :: int jsval) \<and>
   \<not> has_field ''refresh_token'' (JNull :: int jsval) \<and>
   \<not> has_field ''expires_in'' (JNull :: int jsval) \<and>
   result (init (env_with answer_null) sample_arg) =
     Inl (Error ''Error fetching access token for Hubspot: TypeError: Cannot destructure response.data'')"
  by (simp add: init_defs sample_defs)

text \<open>
  C10, amended: for every input, if the request that \<open>init\<close> issues is answered with a
  status from 200 to 299 and a parsed body that is neither \<open>null\<close> nor \<open>undefined\<close>,
  then \<open>init\<close> resolves; each of \<open>accessToken\<close>, \<open>refreshToken\<close> and \<open>expiresIn\<close> is
  the property read of its field on the body, and is \<open>undefined\<close> when the body lacks
  that field.
\<close>

theorem init_missing_fields:
  assumes "sent (init env arg) = [req]"
    and "network env req = HttpResponse status d"
    and "validateStatus status"
    and "\<not> nullish d"
  shows "\<exists>r. result (init env arg) = Inr r \<and>
    accessToken r = get_prop ''access_token'' d \<and>
    refreshToken r = get_prop ''refresh_token'' d \<and>
    expiresIn r = get_prop ''expires_in'' d \<and>
    (\<not> has_field ''access_token'' d \<longrightarrow> accessToken r = JUndefined) \<and>
    (\<not> has_field ''refresh_token'' d \<longrightarrow> refreshToken r = JUndefined) \<and>
    (\<not> has_field ''expires_in'' d \<longrightarrow> expiresIn r = JUndefined)"
proof -
  from assms(2,3) have "axios env req = Inr d"
    by (rule axios_resolves)
  with assms(1) have "result (init env arg) =
    Inr \<lparr>accessToken = get_prop ''access_token'' d,
         refreshToken = get_prop ''refresh_token'' d,
         expiresIn = get_prop ''expires_in'' d,
         tokenType = ''Bearer'', meta = []\<rparr>"
    using assms(4) by (rule init_resolved)
  then show ?thesis
    by (simp add: missing_field_undefined)
qed

theorem init_missing_fields_witness:
  "result (init (env_with answer_access_only) sample_arg) =
     Inr \<lparr>accessToken = JStr ''A'', refreshToken = JUndefined, expiresIn = JUndefined,
          tokenType = ''Bearer'', meta = []\<rparr>"
proof -
  let ?req = "token_request ''grant_type&code&client_id&client_secret&redirect_uri&''"
  let ?d = "JObj [(''access_token'', JStr ''A'')] :: int jsval"
  have s: "sent (init (env_with answer_access_only) sample_arg) = [?req]"
    by (simp add: init_defs sample_defs)
  have n: "network (env_with answer_access_only) ?req = HttpResponse 200 ?d"
    by (simp add: env_with_def)
  have v: "validateStatus 200"
    by (simp add: validateStatus_def)
  have d: "\<not> nullish ?d"
    by simp
  from init_missing_fields [OF s n v d]
  obtain r where "result (init (env_with answer_access_only) sample_arg) = Inr r"
    and "accessToken r = JStr ''A''" and "refreshToken r = JUndefined"
    and "expiresIn r = JUndefined"
    by auto
  moreover from this(1) have "tokenType r = ''Bearer''" and "meta r = []"
    by (auto simp: init_defs sample_defs)
  ultimately show ?thesis
    by (cases r) simp
qed

end
